theory Spec2Isabelle
  imports Main
begin

section \<open>The big3 Python SDK scaffold: \<open>big3/agent/team.py\<close>\<close>

text \<open>
  The module declares five pydantic models (\<open>Model\<close>, \<open>AgentConfig\<close>, \<open>TeamConfig\<close>,
  \<open>CreateTeamResponse\<close>, \<open>AddAgentResponse\<close>) and two client functions, \<open>create_team\<close>
  and \<open>add_agent\<close>. Both functions build a header dictionary and then raise
  \<open>NotImplementedError\<close>; the request they would send is only spelled out in the text of
  the exception.
\<close>

subsection \<open>Python values\<close>

text \<open>
  The values a caller can pass as keyword arguments to a model constructor, and the values
  a model dumps to: \<open>None\<close>, booleans, integers, strings, \<open>bytes\<close> and \<open>bytearray\<close>
  objects, lists, dictionaries with string keys (in insertion order), and instances of the
  class \<open>Model\<close> (carrying its four validated fields: provider, name, version,
  parameters). A string is kept as the bytes of its UTF-8 encoding, so a \<open>bytes\<close> object
  and the string it decodes to have the same character list.
\<close>

datatype pyval =
    PNone
  | PBool bool
  | PInt int
  | PStr string
  | PBytes string
  | PBytearray string
  | PList "pyval list"
  | PDict "(string \<times> pyval) list"
  | PModel string string "string option" "(string \<times> pyval) list option"

type_synonym kwargs = "(string \<times> pyval) list"

subsection \<open>The models (lines 8 to 29)\<close>

record Model =
  provider :: string
  name :: string
  version :: "string option"
  parameters :: "kwargs option"

record AgentConfig =
  name :: string
  model :: Model
  instructions :: "string option"

record TeamConfig =
  name :: string
  description :: "string option"

text \<open>The field \<open>id\<close> of the two response models is written \<open>id'\<close>.\<close>

record CreateTeamResponse =
  id' :: string
  name :: string
  created_at :: "string option"

record AddAgentResponse =
  id' :: string

subsection \<open>Exceptions\<close>

text \<open>
  A pydantic \<open>ValidationError\<close> lists one line per offending field: the location of the
  field (a path of field names) and the error type (\<open>missing\<close>, \<open>string_type\<close>,
  \<open>string_unicode\<close>, \<open>dict_type\<close>, \<open>model_type\<close>). \<open>NotImplementedError\<close> carries its message.
\<close>

type_synonym line_error = "string list \<times> string"

datatype error =
    ValidationError "line_error list"
  | NotImplementedError string

fun exception_class :: "error \<Rightarrow> string" where
  "exception_class (ValidationError es) = ''ValidationError''"
| "exception_class (NotImplementedError m) = ''NotImplementedError''"

subsection \<open>Field validation\<close>

text \<open>
  Constructing a model, \<open>Model(**kw)\<close>, validates every declared field against its
  annotation, collects the failures of all fields in declaration order, and raises one
  \<open>ValidationError\<close> if there is any; keyword arguments that name no field are ignored.
  \<open>map_of kw f\<close> is the argument given for field \<open>f\<close>, \<open>None\<close> when it is absent.
  The rules are those of pydantic 2 (the module refers to \<open>model_dump\<close>) in its default
  mode: a \<open>str\<close> field takes a string, and also a \<open>bytes\<close> or \<open>bytearray\<close> object,
  which it decodes as UTF-8 (failing with \<open>string_unicode\<close> when the bytes are not
  well-formed UTF-8); it takes no number, boolean, list or dictionary. No field of the
  module declares a length, a pattern, a choice of values or a validator.

  Well-formed UTF-8, byte by byte: one byte below \<open>0x80\<close>; a lead byte \<open>0xC2\<close> to \<open>0xDF\<close>
  and one continuation byte; a lead byte \<open>0xE0\<close> to \<open>0xEF\<close> and two; a lead byte \<open>0xF0\<close>
  to \<open>0xF4\<close> and three; with the second byte narrowed after \<open>0xE0\<close>, \<open>0xED\<close>, \<open>0xF0\<close>
  and \<open>0xF4\<close> so that overlong forms, surrogates and code points past \<open>0x10FFFF\<close> are
  refused.
\<close>

definition utf8_cont :: "nat \<Rightarrow> bool" where
  "utf8_cont b = (0x80 \<le> b \<and> b \<le> 0xBF)"

fun utf8_valid :: "nat list \<Rightarrow> bool" where
  "utf8_valid [] = True"
| "utf8_valid [b] = (b < 0x80)"
| "utf8_valid [b, c1] =
     (if b < 0x80 then utf8_valid [c1]
      else 0xC2 \<le> b \<and> b \<le> 0xDF \<and> utf8_cont c1)"
| "utf8_valid [b, c1, c2] =
     (if b < 0x80 then utf8_valid [c1, c2]
      else if 0xC2 \<le> b \<and> b \<le> 0xDF then utf8_cont c1 \<and> utf8_valid [c2]
      else if b = 0xE0 then 0xA0 \<le> c1 \<and> c1 \<le> 0xBF \<and> utf8_cont c2
      else if b = 0xED then 0x80 \<le> c1 \<and> c1 \<le> 0x9F \<and> utf8_cont c2
      else 0xE1 \<le> b \<and> b \<le> 0xEF \<and> utf8_cont c1 \<and> utf8_cont c2)"
| "utf8_valid (b # c1 # c2 # c3 # rest) =
     (if b < 0x80 then utf8_valid (c1 # c2 # c3 # rest)
      else if 0xC2 \<le> b \<and> b \<le> 0xDF then utf8_cont c1 \<and> utf8_valid (c2 # c3 # rest)
      else if b = 0xE0 then
        0xA0 \<le> c1 \<and> c1 \<le> 0xBF \<and> utf8_cont c2 \<and> utf8_valid (c3 # rest)
      else if b = 0xED then
        0x80 \<le> c1 \<and> c1 \<le> 0x9F \<and> utf8_cont c2 \<and> utf8_valid (c3 # rest)
      else if 0xE1 \<le> b \<and> b \<le> 0xEF then
        utf8_cont c1 \<and> utf8_cont c2 \<and> utf8_valid (c3 # rest)
      else if b = 0xF0 then
        0x90 \<le> c1 \<and> c1 \<le> 0xBF \<and> utf8_cont c2 \<and> utf8_cont c3 \<and> utf8_valid rest
      else if b = 0xF4 then
        0x80 \<le> c1 \<and> c1 \<le> 0x8F \<and> utf8_cont c2 \<and> utf8_cont c3 \<and> utf8_valid rest
      else 0xF1 \<le> b \<and> b \<le> 0xF3 \<and> utf8_cont c1 \<and> utf8_cont c2 \<and> utf8_cont c3 \<and>
           utf8_valid rest)"

definition decode_utf8 :: "string \<Rightarrow> string option" where
  "decode_utf8 bs = (if utf8_valid (map of_char bs) then Some bs else None)"

text \<open>
  \<open>str = Field(...)\<close>, and a bare \<open>name: str\<close>: required; a string, or bytes that decode.
\<close>

fun validate_str :: "string \<Rightarrow> pyval option \<Rightarrow> line_error list + string" where
  "validate_str fld None = Inl [([fld], ''missing'')]"
| "validate_str fld (Some (PStr s)) = Inr s"
| "validate_str fld (Some (PBytes bs)) =
     (case decode_utf8 bs of Some s \<Rightarrow> Inr s | None \<Rightarrow> Inl [([fld], ''string_unicode'')])"
| "validate_str fld (Some (PBytearray bs)) =
     (case decode_utf8 bs of Some s \<Rightarrow> Inr s | None \<Rightarrow> Inl [([fld], ''string_unicode'')])"
| "validate_str fld (Some v) = Inl [([fld], ''string_type'')]"

text \<open>
  \<open>Optional[str] = Field(None)\<close>: absent or \<open>None\<close> gives \<open>None\<close>, else as for \<open>str\<close>.
\<close>

fun validate_opt_str :: "string \<Rightarrow> pyval option \<Rightarrow> line_error list + string option" where
  "validate_opt_str fld None = Inr None"
| "validate_opt_str fld (Some PNone) = Inr None"
| "validate_opt_str fld (Some (PStr s)) = Inr (Some s)"
| "validate_opt_str fld (Some (PBytes bs)) =
     (case decode_utf8 bs of
        Some s \<Rightarrow> Inr (Some s) | None \<Rightarrow> Inl [([fld], ''string_unicode'')])"
| "validate_opt_str fld (Some (PBytearray bs)) =
     (case decode_utf8 bs of
        Some s \<Rightarrow> Inr (Some s) | None \<Rightarrow> Inl [([fld], ''string_unicode'')])"
| "validate_opt_str fld (Some v) = Inl [([fld], ''string_type'')]"

text \<open>
  \<open>Optional[Dict[str, Any]] = Field(None)\<close>: absent or \<open>None\<close> gives \<open>None\<close>, else a
  dictionary; its keys are strings already and its values are unconstrained (\<open>Any\<close>).
\<close>

fun validate_opt_dict :: "string \<Rightarrow> pyval option \<Rightarrow> line_error list + kwargs option" where
  "validate_opt_dict fld None = Inr None"
| "validate_opt_dict fld (Some PNone) = Inr None"
| "validate_opt_dict fld (Some (PDict d)) = Inr (Some d)"
| "validate_opt_dict fld (Some v) = Inl [([fld], ''dict_type'')]"

definition errors_of :: "line_error list + 'a \<Rightarrow> line_error list" where
  "errors_of r = (case r of Inl es \<Rightarrow> es | Inr x \<Rightarrow> [])"

subsection \<open>Constructing the models\<close>

definition Model_fields :: "kwargs \<Rightarrow> line_error list + Model" where
  "Model_fields kw =
     (let p = validate_str ''provider'' (map_of kw ''provider'');
          n = validate_str ''name'' (map_of kw ''name'');
          v = validate_opt_str ''version'' (map_of kw ''version'');
          ps = validate_opt_dict ''parameters'' (map_of kw ''parameters'')
      in case (p, n, v, ps) of
           (Inr p', Inr n', Inr v', Inr ps') \<Rightarrow>
             Inr \<lparr> provider = p', name = n', version = v', parameters = ps' \<rparr>
         | _ \<Rightarrow> Inl (errors_of p @ errors_of n @ errors_of v @ errors_of ps))"

definition Model_validate :: "kwargs \<Rightarrow> error + Model" where
  "Model_validate kw =
     (case Model_fields kw of Inl es \<Rightarrow> Inl (ValidationError es) | Inr m \<Rightarrow> Inr m)"

text \<open>
  A field annotated \<open>Model = Field(...)\<close>: required; an instance of \<open>Model\<close> is taken as
  it is, a dictionary is validated as the keyword arguments of \<open>Model\<close> (its errors are
  located under the field), anything else is not a model.
\<close>

fun validate_model :: "string \<Rightarrow> pyval option \<Rightarrow> line_error list + Model" where
  "validate_model fld None = Inl [([fld], ''missing'')]"
| "validate_model fld (Some (PModel p n v ps)) =
     Inr \<lparr> provider = p, name = n, version = v, parameters = ps \<rparr>"
| "validate_model fld (Some (PDict d)) =
     (case Model_fields d of
        Inl es \<Rightarrow> Inl (map (\<lambda>(loc, t). (fld # loc, t)) es)
      | Inr m \<Rightarrow> Inr m)"
| "validate_model fld (Some v) = Inl [([fld], ''model_type'')]"

definition AgentConfig_validate :: "kwargs \<Rightarrow> error + AgentConfig" where
  "AgentConfig_validate kw =
     (let n = validate_str ''name'' (map_of kw ''name'');
          m = validate_model ''model'' (map_of kw ''model'');
          i = validate_opt_str ''instructions'' (map_of kw ''instructions'')
      in case (n, m, i) of
           (Inr n', Inr m', Inr i') \<Rightarrow>
             Inr \<lparr> AgentConfig.name = n', model = m', instructions = i' \<rparr>
         | _ \<Rightarrow> Inl (ValidationError (errors_of n @ errors_of m @ errors_of i)))"

definition TeamConfig_validate :: "kwargs \<Rightarrow> error + TeamConfig" where
  "TeamConfig_validate kw =
     (let n = validate_str ''name'' (map_of kw ''name'');
          d = validate_opt_str ''description'' (map_of kw ''description'')
      in case (n, d) of
           (Inr n', Inr d') \<Rightarrow> Inr \<lparr> TeamConfig.name = n', description = d' \<rparr>
         | _ \<Rightarrow> Inl (ValidationError (errors_of n @ errors_of d)))"

definition CreateTeamResponse_validate :: "kwargs \<Rightarrow> error + CreateTeamResponse" where
  "CreateTeamResponse_validate kw =
     (let i = validate_str ''id'' (map_of kw ''id'');
          n = validate_str ''name'' (map_of kw ''name'');
          c = validate_opt_str ''created_at'' (map_of kw ''created_at'')
      in case (i, n, c) of
           (Inr i', Inr n', Inr c') \<Rightarrow>
             Inr \<lparr> CreateTeamResponse.id' = i', name = n', created_at = c' \<rparr>
         | _ \<Rightarrow> Inl (ValidationError (errors_of i @ errors_of n @ errors_of c)))"

definition AddAgentResponse_validate :: "kwargs \<Rightarrow> error + AddAgentResponse" where
  "AddAgentResponse_validate kw =
     (case validate_str ''id'' (map_of kw ''id'') of
        Inr i' \<Rightarrow> Inr \<lparr> AddAgentResponse.id' = i' \<rparr>
      | Inl es \<Rightarrow> Inl (ValidationError es))"

text \<open>
  \<open>TeamConfig.model_dump()\<close>: a dictionary with one key per declared field, in
  declaration order; an unset optional field is dumped as \<open>None\<close>.
\<close>

definition TeamConfig_model_dump :: "TeamConfig \<Rightarrow> kwargs" where
  "TeamConfig_model_dump c =
     [(''name'', PStr (TeamConfig.name c)),
      (''description'', (case description c of None \<Rightarrow> PNone | Some d \<Rightarrow> PStr d))]"

subsection \<open>Shapes of arguments\<close>

text \<open>
  What it means for the argument of a field to be present and of the declared shape:
  a string, or a \<open>bytes\<close> or \<open>bytearray\<close> object holding well-formed UTF-8; absent,
  \<open>None\<close> or such a string; absent, \<open>None\<close> or a dictionary; an instance of \<open>Model\<close> or a
  dictionary of well-shaped \<open>Model\<close> arguments.
\<close>

fun str_given :: "pyval option \<Rightarrow> bool" where
  "str_given (Some (PStr s)) = True"
| "str_given (Some (PBytes bs)) = utf8_valid (map of_char bs)"
| "str_given (Some (PBytearray bs)) = utf8_valid (map of_char bs)"
| "str_given v = False"

fun opt_str_given :: "pyval option \<Rightarrow> bool" where
  "opt_str_given None = True"
| "opt_str_given (Some PNone) = True"
| "opt_str_given (Some v) = str_given (Some v)"

fun opt_dict_given :: "pyval option \<Rightarrow> bool" where
  "opt_dict_given None = True"
| "opt_dict_given (Some PNone) = True"
| "opt_dict_given (Some (PDict d)) = True"
| "opt_dict_given v = False"

definition Model_args_given :: "kwargs \<Rightarrow> bool" where
  "Model_args_given kw =
     (str_given (map_of kw ''provider'') \<and> str_given (map_of kw ''name'') \<and>
      opt_str_given (map_of kw ''version'') \<and> opt_dict_given (map_of kw ''parameters''))"

fun model_given :: "pyval option \<Rightarrow> bool" where
  "model_given (Some (PModel p n v ps)) = True"
| "model_given (Some (PDict d)) = Model_args_given d"
| "model_given v = False"

subsection \<open>The network, as the functions see it\<close>

text \<open>
  A request as \<open>requests.post(url, json=..., headers=...)\<close> would send it, and the
  response of the remote service. The service is an explicit parameter \<open>srv\<close> of the client
  functions; a call returns its local header dictionary, the requests it has sent, and
  either the returned string or the exception raised.
\<close>

record http_request =
  req_method :: string
  req_url :: string
  req_json :: pyval
  req_headers :: "(string \<times> string) list"

record http_response =
  status_code :: nat
  body :: pyval

type_synonym server = "http_request \<Rightarrow> http_response"

record call_outcome =
  headers :: "string \<rightharpoonup> string"
  requests_sent :: "http_request list"
  result :: "error + string"

text \<open>
  A service that answers every request with the same status and body, and the class of
  the exception a call ends with (\<open>None\<close> when it returns).
\<close>

definition mock_server :: "nat \<Rightarrow> pyval \<Rightarrow> server" where
  "mock_server st b req = \<lparr> status_code = st, body = b \<rparr>"

definition raised_class :: "call_outcome \<Rightarrow> string option" where
  "raised_class out = (case result out of Inl e \<Rightarrow> Some (exception_class e) | Inr s \<Rightarrow> None)"

subsection \<open>\<open>create_team\<close> (lines 31 to 60) and \<open>add_agent\<close> (lines 62 to 91)\<close>

text \<open>
  Lines 52 to 54, and again 83 to 85: \<open>headers = {}\<close>, then, if \<open>api_key\<close> is truthy,
  \<open>headers["Authorization"] = f"Bearer {api_key}"\<close>. \<open>None\<close> and the empty string are the
  falsy values of an \<open>Optional[str]\<close>; the dictionary is a map from header names to values.
\<close>

fun create_team_headers :: "string option \<Rightarrow> (string \<rightharpoonup> string)" where
  "create_team_headers None = Map.empty"
| "create_team_headers (Some k) =
     (if k \<noteq> [] then Map.empty(''Authorization'' \<mapsto> ''Bearer '' @ k) else Map.empty)"

fun add_agent_headers :: "string option \<Rightarrow> (string \<rightharpoonup> string)" where
  "add_agent_headers None = Map.empty"
| "add_agent_headers (Some k) =
     (if k \<noteq> [] then Map.empty(''Authorization'' \<mapsto> ''Bearer '' @ k) else Map.empty)"

text \<open>
  The messages of the two exceptions. Each is an ordinary string literal followed by an
  f-string: \<open>{base_url}\<close> is replaced by the argument, and in \<open>add_agent\<close> the doubled
  braces \<open>{{team_id}}\<close> come out as the literal text \<open>{team_id}\<close>, so the \<open>team_id\<close>
  argument does not occur in the message.
\<close>

definition create_team_message :: "string \<Rightarrow> string" where
  "create_team_message base_url =
     ''Python SDK scaffold only. Implement:'' @ [CHR 0x0A] @
     ''requests.post(f'' @ [CHR 0x27] @ base_url @ ''/teams'' @ [CHR 0x27] @
     '', json=config.model_dump(), headers=headers)''"

definition add_agent_message :: "string \<Rightarrow> string" where
  "add_agent_message base_url =
     ''Python SDK scaffold only. Implement:'' @ [CHR 0x0A] @
     ''requests.post(f'' @ [CHR 0x27] @ base_url @ ''/teams/{team_id}/agents'' @ [CHR 0x27] @
     '', json=config.model_dump(), headers=headers)''"

definition create_team :: "server \<Rightarrow> string \<Rightarrow> TeamConfig \<Rightarrow> string option \<Rightarrow> call_outcome" where
  "create_team srv base_url config api_key =
     \<lparr> headers = create_team_headers api_key,
       requests_sent = [],
       result = Inl (NotImplementedError (create_team_message base_url)) \<rparr>"

definition add_agent ::
  "server \<Rightarrow> string \<Rightarrow> string \<Rightarrow> AgentConfig \<Rightarrow> string option \<Rightarrow> call_outcome" where
  "add_agent srv base_url team_id config api_key =
     \<lparr> headers = add_agent_headers api_key,
       requests_sent = [],
       result = Inl (NotImplementedError (add_agent_message base_url)) \<rparr>"

section \<open>Validation succeeds exactly on well-shaped arguments\<close>

lemma validate_str_Inr: "validate_str f v = Inr s \<Longrightarrow> str_given v"
  by (cases "(f, v)" rule: validate_str.cases)
     (auto simp: decode_utf8_def split: if_splits)

lemma validate_str_Inl: "validate_str f v = Inl es \<Longrightarrow> \<not> str_given v"
  by (cases "(f, v)" rule: validate_str.cases)
     (auto simp: decode_utf8_def split: if_splits)

lemma validate_opt_str_Inr: "validate_opt_str f v = Inr s \<Longrightarrow> opt_str_given v"
  by (cases "(f, v)" rule: validate_opt_str.cases)
     (auto simp: decode_utf8_def split: if_splits)

lemma validate_opt_str_Inl: "validate_opt_str f v = Inl es \<Longrightarrow> \<not> opt_str_given v"
  by (cases "(f, v)" rule: validate_opt_str.cases)
     (auto simp: decode_utf8_def split: if_splits)

lemma validate_opt_dict_Inr: "validate_opt_dict f v = Inr s \<Longrightarrow> opt_dict_given v"
  by (cases "(f, v)" rule: validate_opt_dict.cases) auto

lemma validate_opt_dict_Inl: "validate_opt_dict f v = Inl es \<Longrightarrow> \<not> opt_dict_given v"
  by (cases "(f, v)" rule: validate_opt_dict.cases) auto

lemmas shape_dests =
  validate_str_Inr validate_str_Inl validate_opt_str_Inr validate_opt_str_Inl
  validate_opt_dict_Inr validate_opt_dict_Inl

lemma Model_fields_ok: "(\<exists>m. Model_fields kw = Inr m) = Model_args_given kw"
  unfolding Model_fields_def Model_args_given_def Let_def
  by (auto split: sum.splits dest: shape_dests)

lemma Model_fields_fails: "(\<exists>es. Model_fields kw = Inl es) = (\<not> Model_args_given kw)"
  using Model_fields_ok [of kw] by (cases "Model_fields kw") auto

lemma validate_model_Inr: "validate_model f v = Inr m \<Longrightarrow> model_given v"
  using Model_fields_ok
  by (cases "(f, v)" rule: validate_model.cases) (auto split: sum.splits)

lemma validate_model_Inl: "validate_model f v = Inl es \<Longrightarrow> \<not> model_given v"
  using Model_fields_fails
  by (cases "(f, v)" rule: validate_model.cases) (auto split: sum.splits)

lemma Model_validate_ok: "(\<exists>m. Model_validate kw = Inr m) = Model_args_given kw"
  unfolding Model_validate_def using Model_fields_ok [of kw]
  by (auto split: sum.splits)

lemma Model_validate_fails:
  "(\<exists>es. Model_validate kw = Inl (ValidationError es)) = (\<not> Model_args_given kw)"
  unfolding Model_validate_def using Model_fields_ok [of kw]
  by (auto split: sum.splits)

lemma AgentConfig_validate_ok:
  "(\<exists>c. AgentConfig_validate kw = Inr c) =
   (str_given (map_of kw ''name'') \<and> model_given (map_of kw ''model'') \<and>
    opt_str_given (map_of kw ''instructions''))"
  unfolding AgentConfig_validate_def Let_def
  by (auto split: sum.splits dest: shape_dests validate_model_Inr validate_model_Inl)

lemma AgentConfig_validate_fails:
  "(\<exists>es. AgentConfig_validate kw = Inl (ValidationError es)) =
   (\<not> (str_given (map_of kw ''name'') \<and> model_given (map_of kw ''model'') \<and>
        opt_str_given (map_of kw ''instructions'')))"
  unfolding AgentConfig_validate_def Let_def
  by (auto split: sum.splits dest: shape_dests validate_model_Inr validate_model_Inl)

lemma TeamConfig_validate_ok:
  "(\<exists>c. TeamConfig_validate kw = Inr c) =
   (str_given (map_of kw ''name'') \<and> opt_str_given (map_of kw ''description''))"
  unfolding TeamConfig_validate_def Let_def
  by (auto split: sum.splits dest: shape_dests)

lemma TeamConfig_validate_fails:
  "(\<exists>es. TeamConfig_validate kw = Inl (ValidationError es)) =
   (\<not> (str_given (map_of kw ''name'') \<and> opt_str_given (map_of kw ''description'')))"
  unfolding TeamConfig_validate_def Let_def
  by (auto split: sum.splits dest: shape_dests)

lemma bytes_are_decoded:
  "TeamConfig_validate [(''name'', PBytes ''Ops'')] =
     Inr \<lparr> TeamConfig.name = ''Ops'', description = None \<rparr>
   \<and> TeamConfig_validate [(''name'', PBytearray [CHR 0xFF])] =
     Inl (ValidationError [([''name''], ''string_unicode'')])"
  by (simp add: TeamConfig_validate_def decode_utf8_def errors_of_def)

lemma raised_class_create_team:
  "raised_class (create_team srv base_url tc api_key) = Some ''NotImplementedError''"
  by (simp add: raised_class_def create_team_def)

lemma raised_class_add_agent:
  "raised_class (add_agent srv base_url team_id ac api_key) = Some ''NotImplementedError''"
  by (simp add: raised_class_def add_agent_def)


section \<open>The client functions and the models, claim by claim\<close>

text \<open>
  C1. For every base URL, configuration and API key (and whatever the remote service
  would answer), \<open>create_team\<close> and \<open>add_agent\<close> each raise \<open>NotImplementedError\<close>: the
  result is never a returned string, and the list of requests sent is empty.
\<close>

theorem stubs_raise_NotImplementedError:
  "result (create_team srv base_url tc api_key)
     = Inl (NotImplementedError (create_team_message base_url))
   \<and> result (add_agent srv base_url team_id ac api_key)
     = Inl (NotImplementedError (add_agent_message base_url))
   \<and> (\<forall>s. result (create_team srv base_url tc api_key) \<noteq> Inr s)
   \<and> (\<forall>s. result (add_agent srv base_url team_id ac api_key) \<noteq> Inr s)
   \<and> requests_sent (create_team srv base_url tc api_key) = []
   \<and> requests_sent (add_agent srv base_url team_id ac api_key) = []"
  by (simp add: create_team_def add_agent_def)


text \<open>
  C2, as the code has it. Whatever the service would answer, \<open>create_team\<close> serializes
  nothing, sends nothing and returns nothing: the outcome depends neither on the service
  nor on the configuration, and is a \<open>NotImplementedError\<close> whose message quotes the
  intended call with the base URL filled in. The body
  \<open>{"id": "team_123", "name": "Ops"}\<close> does validate as a \<open>CreateTeamResponse\<close> with that
  id, but the function never gets that far.
\<close>

theorem create_team_only_names_the_post:
  "create_team srv base_url tc api_key = create_team srv' base_url tc' api_key
   \<and> requests_sent (create_team srv base_url tc api_key) = []
   \<and> result (create_team srv base_url tc api_key) =
       Inl (NotImplementedError
         (''Python SDK scaffold only. Implement:'' @ [CHR 0x0A] @ ''requests.post(f'' @
          [CHR 0x27] @ base_url @ ''/teams'' @ [CHR 0x27] @
          '', json=config.model_dump(), headers=headers)''))
   \<and> CreateTeamResponse_validate [(''id'', PStr ''team_123''), (''name'', PStr ''Ops'')] =
       Inr \<lparr> CreateTeamResponse.id' = ''team_123'', name = ''Ops'', created_at = None \<rparr>"
  by (simp add: create_team_def create_team_message_def CreateTeamResponse_validate_def)

text \<open>
  The claim C2 as stated fails: against a service answering HTTP 201 with the body
  \<open>{"id": "team_123", "name": "Ops"}\<close>, \<open>create_team\<close> does not return \<open>"team_123"\<close>
  and posts nothing.
\<close>

theorem create_team_201_counterexample:
  "result (create_team
      (mock_server 201 (PDict [(''id'', PStr ''team_123''), (''name'', PStr ''Ops'')]))
      ''http://localhost:3000/api''
      \<lparr> TeamConfig.name = ''Ops'', description = None \<rparr> None) \<noteq> Inr ''team_123''
   \<and> requests_sent (create_team
      (mock_server 201 (PDict [(''id'', PStr ''team_123''), (''name'', PStr ''Ops'')]))
      ''http://localhost:3000/api''
      \<lparr> TeamConfig.name = ''Ops'', description = None \<rparr> None) = []"
  by (simp add: create_team_def)

text \<open>
  C3, as the code has it. Over arguments that are \<open>None\<close>, booleans, integers, strings,
  \<open>bytes\<close>, \<open>bytearray\<close>s, lists, dictionaries with string keys or \<open>Model\<close> instances:
  constructing a \<open>Model\<close>, an \<open>AgentConfig\<close> or a \<open>TeamConfig\<close> succeeds exactly when every
  required field is present and of its declared shape and every optional field is absent,
  \<open>None\<close> or of its declared shape; in every other case it fails with \<open>ValidationError\<close>.
  The shape of a \<open>str\<close> field is a string, or a \<open>bytes\<close> or \<open>bytearray\<close> object holding
  well-formed UTF-8, which is decoded.
\<close>

theorem construction_fails_iff_some_field_ill_shaped:
  "(\<exists>m. Model_validate kw = Inr m) =
     (str_given (map_of kw ''provider'') \<and> str_given (map_of kw ''name'') \<and>
      opt_str_given (map_of kw ''version'') \<and> opt_dict_given (map_of kw ''parameters''))
   \<and> (\<exists>es. Model_validate kw = Inl (ValidationError es)) =
     (\<not> (str_given (map_of kw ''provider'') \<and> str_given (map_of kw ''name'') \<and>
      opt_str_given (map_of kw ''version'') \<and> opt_dict_given (map_of kw ''parameters'')))
   \<and> (\<exists>c. AgentConfig_validate kw = Inr c) =
     (str_given (map_of kw ''name'') \<and> model_given (map_of kw ''model'') \<and>
      opt_str_given (map_of kw ''instructions''))
   \<and> (\<exists>es. AgentConfig_validate kw = Inl (ValidationError es)) =
     (\<not> (str_given (map_of kw ''name'') \<and> model_given (map_of kw ''model'') \<and>
      opt_str_given (map_of kw ''instructions'')))
   \<and> (\<exists>c. TeamConfig_validate kw = Inr c) =
     (str_given (map_of kw ''name'') \<and> opt_str_given (map_of kw ''description''))
   \<and> (\<exists>es. TeamConfig_validate kw = Inl (ValidationError es)) =
     (\<not> (str_given (map_of kw ''name'') \<and> opt_str_given (map_of kw ''description'')))"
proof -
  have m: "Model_args_given kw =
     (str_given (map_of kw ''provider'') \<and> str_given (map_of kw ''name'') \<and>
      opt_str_given (map_of kw ''version'') \<and> opt_dict_given (map_of kw ''parameters''))"
    by (simp add: Model_args_given_def)
  show ?thesis
    using Model_validate_ok [of kw] Model_validate_fails [of kw]
      AgentConfig_validate_ok [of kw] AgentConfig_validate_fails [of kw]
      TeamConfig_validate_ok [of kw] TeamConfig_validate_fails [of kw]
    unfolding m by blast
qed

text \<open>
  The claim C3 as stated fails: with the required field \<open>name\<close> present and a string, a
  \<open>TeamConfig\<close> whose optional \<open>description\<close> is a list is rejected.
\<close>

theorem optional_field_ill_shaped_counterexample:
  "str_given (map_of [(''name'', PStr ''Ops''), (''description'', PList [])] ''name'')
   \<and> TeamConfig_validate [(''name'', PStr ''Ops''), (''description'', PList [])] =
       Inl (ValidationError [([''description''], ''string_type'')])"
  by (simp add: TeamConfig_validate_def errors_of_def)

text \<open>
  C4, as the code has it. Whenever the \<open>model\<close> argument is missing, constructing an
  \<open>AgentConfig\<close> fails with a \<open>ValidationError\<close> that reports \<open>model\<close> as missing. An empty
  \<open>name\<close> is a string like any other: with a well-shaped \<open>model\<close> and \<open>instructions\<close>,
  construction succeeds and keeps the empty name.
\<close>

theorem AgentConfig_missing_model_fails:
  "(map_of kw ''model'' = None \<longrightarrow>
      (\<exists>es. AgentConfig_validate kw = Inl (ValidationError es) \<and>
            ([''model''], ''missing'') \<in> set es))
   \<and> (map_of kw ''name'' = Some (PStr '''') \<and> model_given (map_of kw ''model'') \<and>
        opt_str_given (map_of kw ''instructions'') \<longrightarrow>
      (\<exists>c. AgentConfig_validate kw = Inr c \<and> AgentConfig.name c = ''''))"
proof (intro conjI impI)
  assume "map_of kw ''model'' = None"
  then show "\<exists>es. AgentConfig_validate kw = Inl (ValidationError es) \<and>
            ([''model''], ''missing'') \<in> set es"
    by (auto simp: AgentConfig_validate_def Let_def errors_of_def split: sum.splits)
next
  assume a: "map_of kw ''name'' = Some (PStr '''') \<and> model_given (map_of kw ''model'') \<and>
        opt_str_given (map_of kw ''instructions'')"
  then obtain c where c: "AgentConfig_validate kw = Inr c"
    using AgentConfig_validate_ok [of kw] by auto
  with a have "AgentConfig.name c = ''''"
    by (auto simp: AgentConfig_validate_def Let_def split: sum.splits)
  with c show "\<exists>c. AgentConfig_validate kw = Inr c \<and> AgentConfig.name c = ''''"
    by blast
qed

theorem AgentConfig_missing_model_fails_witness:
  "(\<exists>es. AgentConfig_validate [(''name'', PStr ''planner'')] = Inl (ValidationError es) \<and>
         ([''model''], ''missing'') \<in> set es)
   \<and> (\<exists>c. AgentConfig_validate
          [(''name'', PStr ''''), (''model'', PModel ''openai'' ''gpt-4'' None None)] = Inr c \<and>
         AgentConfig.name c = '''')"
  using AgentConfig_missing_model_fails [of "[(''name'', PStr ''planner'')]"]
    AgentConfig_missing_model_fails
      [of "[(''name'', PStr ''''), (''model'', PModel ''openai'' ''gpt-4'' None None)]"]
  by simp

text \<open>
  The claim C4 as stated fails: an \<open>AgentConfig\<close> with the empty string as \<open>name\<close> and a
  \<open>Model\<close> instance as \<open>model\<close> is constructed.
\<close>

theorem AgentConfig_empty_name_counterexample:
  "AgentConfig_validate
     [(''name'', PStr ''''), (''model'', PModel ''openai'' ''gpt-4'' None None)] =
   Inr \<lparr> AgentConfig.name = '''',
         model = \<lparr> provider = ''openai'', name = ''gpt-4'', version = None,
                   parameters = None \<rparr>,
         instructions = None \<rparr>"
  by (simp add: AgentConfig_validate_def)

text \<open>
  C5. The claim asks that a \<open>Model\<close> be constructed only for a provider among openai,
  anthropic, google, as the description of the field at line 9 lists them. The code
  declares \<open>provider\<close> a plain \<open>str\<close> and checks nothing more: the provider \<open>acme\<close> is none
  of the three, and \<open>Model(provider="acme", name="m1")\<close> is constructed all the same.
\<close>

theorem Model_unlisted_provider_is_constructed:
  "''acme'' \<notin> {''openai'', ''anthropic'', ''google''}
   \<and> Model_validate [(''provider'', PStr ''acme''), (''name'', PStr ''m1'')] =
       Inr \<lparr> provider = ''acme'', name = ''m1'', version = None, parameters = None \<rparr>"
  by (simp add: Model_validate_def Model_fields_def)

text \<open>
  C6. For every base URL and configuration, \<open>create_team\<close> called with \<open>api_key=None\<close>
  builds a header dictionary with no entry at all, hence no \<open>Authorization\<close> header; called
  with \<open>api_key="X"\<close> it builds the dictionary whose one entry is
  \<open>Authorization: Bearer X\<close>, and likewise for every other non-empty key.
\<close>

theorem create_team_authorization_header:
  "headers (create_team srv base_url tc None) = Map.empty
   \<and> headers (create_team srv base_url tc (Some ''X'')) =
       [''Authorization'' \<mapsto> ''Bearer X'']
   \<and> headers (create_team srv base_url tc (Some (c # cs))) =
       [''Authorization'' \<mapsto> ''Bearer '' @ c # cs]"
  by (simp add: create_team_def)

text \<open>
  C7, as the code has it. Every call of \<open>add_agent\<close> ends in \<open>NotImplementedError\<close>, also
  when the service would report the team as unknown: no request is sent, so neither the
  service's answer nor the team id has any influence on the outcome.
\<close>

theorem add_agent_never_reaches_the_server:
  "raised_class (add_agent srv base_url team_id ac api_key) = Some ''NotImplementedError''
   \<and> requests_sent (add_agent srv base_url team_id ac api_key) = []
   \<and> add_agent srv base_url team_id ac api_key = add_agent srv' base_url team_id' ac api_key"
  by (simp add: raised_class_def add_agent_def)

text \<open>
  The claim C7 as stated fails: against a service answering HTTP 404, \<open>add_agent\<close> with
  \<open>team_id="missing"\<close> raises \<open>NotImplementedError\<close>, not \<open>NotFoundError\<close>.
\<close>

theorem add_agent_404_counterexample:
  "raised_class (add_agent (mock_server 404 (PDict [(''error'', PStr ''team not found'')]))
      ''http://localhost:3000/api'' ''missing''
      \<lparr> AgentConfig.name = ''planner'',
        model = \<lparr> provider = ''openai'', name = ''gpt-4'', version = None,
                  parameters = None \<rparr>,
        instructions = None \<rparr> None) = Some ''NotImplementedError''
   \<and> raised_class (add_agent (mock_server 404 (PDict [(''error'', PStr ''team not found'')]))
      ''http://localhost:3000/api'' ''missing''
      \<lparr> AgentConfig.name = ''planner'',
        model = \<lparr> provider = ''openai'', name = ''gpt-4'', version = None,
                  parameters = None \<rparr>,
        instructions = None \<rparr> None) \<noteq> Some ''NotFoundError''"
  by (simp add: raised_class_def add_agent_def)

text \<open>
  C8, as the code has it. For every server response, whatever its status and body (a body
  with \<open>id\<close> missing, null or ill-typed, with another field ill-shaped, or one that is no
  object at all), \<open>create_team\<close> and \<open>add_agent\<close> fail with \<open>NotImplementedError\<close>: the
  response is never read, and no identifier of any kind, null or placeholder, is returned.
  The response models themselves never default the identifier: validating a body whose
  \<open>id\<close> is missing, null or otherwise no string as a \<open>CreateTeamResponse\<close> or an
  \<open>AddAgentResponse\<close> fails with \<open>ValidationError\<close>.
\<close>

theorem ill_shaped_body_yields_no_identifier:
  "raised_class (create_team (mock_server st b) base_url tc api_key) =
       Some ''NotImplementedError''
   \<and> raised_class (add_agent (mock_server st b) base_url team_id ac api_key) =
       Some ''NotImplementedError''
   \<and> (\<forall>s. result (create_team (mock_server st b) base_url tc api_key) \<noteq> Inr s)
   \<and> (\<forall>s. result (add_agent (mock_server st b) base_url team_id ac api_key) \<noteq> Inr s)
   \<and> (\<not> str_given (map_of kw ''id'') \<longrightarrow>
        (\<exists>es. CreateTeamResponse_validate kw = Inl (ValidationError es)) \<and>
        (\<exists>es. AddAgentResponse_validate kw = Inl (ValidationError es)))"
proof -
  have stubs:
    "(\<forall>s. result (create_team (mock_server st b) base_url tc api_key) \<noteq> Inr s)
     \<and> (\<forall>s. result (add_agent (mock_server st b) base_url team_id ac api_key) \<noteq> Inr s)"
    by (simp add: create_team_def add_agent_def)
  have models: "\<not> str_given (map_of kw ''id'') \<longrightarrow>
        (\<exists>es. CreateTeamResponse_validate kw = Inl (ValidationError es)) \<and>
        (\<exists>es. AddAgentResponse_validate kw = Inl (ValidationError es))"
  proof
    assume a: "\<not> str_given (map_of kw ''id'')"
    then obtain es where es: "validate_str ''id'' (map_of kw ''id'') = Inl es"
      using validate_str_Inr [of "''id''" "map_of kw ''id''"]
      by (cases "validate_str ''id'' (map_of kw ''id'')") auto
    then show "(\<exists>es. CreateTeamResponse_validate kw = Inl (ValidationError es)) \<and>
        (\<exists>es. AddAgentResponse_validate kw = Inl (ValidationError es))"
      by (simp add: CreateTeamResponse_validate_def AddAgentResponse_validate_def Let_def)
  qed
  show ?thesis
    using stubs models raised_class_create_team raised_class_add_agent by blast
qed

theorem ill_shaped_body_yields_no_identifier_witness:
  "raised_class (create_team
      (mock_server 200 (PDict [(''id'', PNone), (''name'', PStr ''Ops'')]))
      ''http://localhost:3000/api'' \<lparr> TeamConfig.name = ''Ops'', description = None \<rparr> None) =
     Some ''NotImplementedError''
   \<and> (\<forall>s. result (create_team
      (mock_server 200 (PDict [(''id'', PNone), (''name'', PStr ''Ops'')]))
      ''http://localhost:3000/api'' \<lparr> TeamConfig.name = ''Ops'', description = None \<rparr> None) \<noteq>
     Inr s)
   \<and> (\<exists>es. CreateTeamResponse_validate [(''id'', PNone), (''name'', PStr ''Ops'')] =
          Inl (ValidationError es))
   \<and> (\<exists>es. AddAgentResponse_validate [(''id'', PNone), (''name'', PStr ''Ops'')] =
          Inl (ValidationError es))"
  using ill_shaped_body_yields_no_identifier
    [of 200 "PDict [(''id'', PNone), (''name'', PStr ''Ops'')]" "''http://localhost:3000/api''"
        "\<lparr> TeamConfig.name = ''Ops'', description = None \<rparr>" None _ _
        "[(''id'', PNone), (''name'', PStr ''Ops'')]"]
  by simp

text \<open>
  The claim C8 as stated fails: against a service whose body lacks \<open>id\<close>, \<open>create_team\<close>
  raises \<open>NotImplementedError\<close> with its scaffold message, which is not a \<open>DecodeError\<close>.
\<close>

theorem body_without_id_counterexample:
  "map_of [(''name'', PStr ''Ops'')] ''id'' = None
   \<and> result (create_team (mock_server 201 (PDict [(''name'', PStr ''Ops'')]))
      ''http://localhost:3000/api'' \<lparr> TeamConfig.name = ''Ops'', description = None \<rparr> None) =
     Inl (NotImplementedError (create_team_message ''http://localhost:3000/api''))
   \<and> raised_class (create_team (mock_server 201 (PDict [(''name'', PStr ''Ops'')]))
      ''http://localhost:3000/api'' \<lparr> TeamConfig.name = ''Ops'', description = None \<rparr> None) =
     Some ''NotImplementedError''
   \<and> ''NotImplementedError'' \<noteq> ''DecodeError''"
  by (simp add: raised_class_def create_team_def)

text \<open>
  C9. For every \<open>TeamConfig\<close> value, \<open>model_dump\<close> produces a dictionary whose keys are
  exactly the declared fields \<open>name\<close> and \<open>description\<close>, and constructing a \<open>TeamConfig\<close>
  from that dictionary gives the original value back, whether or not the optional
  \<open>description\<close> is set.
\<close>

theorem TeamConfig_dump_roundtrip:
  "map fst (TeamConfig_model_dump c) = [''name'', ''description'']
   \<and> TeamConfig_validate (TeamConfig_model_dump c) = Inr c"
  by (cases "description c")
     (simp_all add: TeamConfig_model_dump_def TeamConfig_validate_def)

text \<open>
  C10. In both \<open>create_team\<close> and \<open>add_agent\<close>, the empty string as \<open>api_key\<close> is falsy
  like \<open>None\<close>: no \<open>Authorization\<close> header is built, and the two calls build the same
  (empty) header dictionary.
\<close>

theorem empty_api_key_builds_no_header:
  "headers (create_team srv base_url tc (Some '''')) = headers (create_team srv base_url tc None)
   \<and> headers (add_agent srv base_url team_id ac (Some '''')) =
       headers (add_agent srv base_url team_id ac None)
   \<and> headers (create_team srv base_url tc (Some '''')) = Map.empty
   \<and> headers (add_agent srv base_url team_id ac (Some '''')) = Map.empty"
  by (simp add: create_team_def add_agent_def)

end
